theory Spec2Isabelle
  imports Complex_Main
begin

section \<open>Student feedback system: a shallow embedding of feedback\_system.py\<close>

text \<open>
  The development follows \<^verbatim>\<open>src/feedback_system.py\<close>. Conventions:
  \<^item> Python \<^verbatim>\<open>float\<close> scores are modelled as \<^typ>\<open>real\<close>: the comparisons of the source
    are the order of the reals on the values the floats denote, the decimal literals
    (\<^verbatim>\<open>0.9\<close>, \<^verbatim>\<open>0.3\<close>, ...) are the rationals they are written as, and no rounding is modelled.
    Where a property depends on the values of the similarities, the kernel of the library
    is left open as a parameter, so that the property holds for the rounded values too.
  \<^item> Python \<^verbatim>\<open>str\<close> is \<^typ>\<open>string\<close>; a character outside ASCII is its UTF-8 bytes.
  \<^item> \<^verbatim>\<open>datetime\<close> values are integers (microseconds); a call reads the clock once and
    receives the reading as the argument \<open>now\<close>.
  \<^item> The sentence-transformers model is external: it is the parameter \<open>enc\<close>, which maps a
    text to its embedding vector, or to \<open>None\<close> when the provider raises.
  \<^item> A raised exception is a value \<open>Inl e\<close> of the sum type \<open>error + 'a\<close>.
\<close>

subsection \<open>Data model\<close>

type_synonym datetime = int

datatype RewardType = BRONZE | SILVER | GOLD | PLATINUM

fun RewardType_value :: "RewardType \<Rightarrow> string" where
  "RewardType_value BRONZE = ''bronze''"
| "RewardType_value SILVER = ''silver''"
| "RewardType_value GOLD = ''gold''"
| "RewardType_value PLATINUM = ''platinum''"

definition RewardType_members :: "RewardType list" where
  "RewardType_members = [BRONZE, SILVER, GOLD, PLATINUM]"

record StudentResponse =
  student_id :: string
  question_id :: string
  response_text :: string
  subject :: string
  timestamp :: datetime
  expected_keywords :: "string list option"

text \<open>
  The identifiers \<^verbatim>\<open>resp_<stamp>\<close>, \<^verbatim>\<open>alert_<stamp>\<close> and \<^verbatim>\<open>alert_<stamp>_pattern\<close> are kept
  as their shape and the clock reading that \<^verbatim>\<open>strftime\<close> formats.
\<close>

datatype ident = Resp datetime | Alert datetime | AlertPattern datetime

record Feedback =
  response_id :: ident
  student_id_f :: string
  similarity_score :: real
  reward_type :: RewardType
  feedback_text :: string
  strengths :: "string list"
  improvement_areas :: "string list"
  personalized_tips :: "string list"
  points_earned :: int
  timestamp_f :: datetime

record EducatorAlert =
  alert_id :: ident
  student_id_a :: string
  alert_type :: string
  severity :: string
  description_a :: string
  timestamp_a :: datetime
  action_required :: bool

record criteria =
  min_score :: real
  points :: int
  description :: string

text \<open>The mutable attributes of a \<^verbatim>\<open>FeedbackGenerator\<close> instance.\<close>

record FeedbackGenerator =
  feedback_history :: "Feedback list"
  educator_alerts :: "EducatorAlert list"

definition init :: FeedbackGenerator where
  "init = \<lparr>feedback_history = [], educator_alerts = []\<rparr>"

datatype error = EncodeError | ValueError | IndexError | KeyError

type_synonym encoder = "string \<Rightarrow> real list option"

subsection \<open>Reference corpus and reward table\<close>

text \<open>Both are dictionaries built once in \<^verbatim>\<open>__init__\<close>; insertion order is kept.\<close>

definition reference_answers :: "(string \<times> (string \<times> string list) list) list" where
  "reference_answers =
    [(''mathematics'',
       [(''algebra'',
          [''To solve linear equations, isolate the variable by performing inverse operations on both sides'',
           ''The quadratic formula is x = (-b '' @ [CHR 0xC2, CHR 0xB1] @ '' '' @ [CHR 0xE2, CHR 0x88, CHR 0x9A]
             @ ''(b'' @ [CHR 0xC2, CHR 0xB2] @ ''-4ac)) / 2a for equations ax'' @ [CHR 0xC2, CHR 0xB2]
             @ '' + bx + c = 0'',
           ''Functions represent relationships between input and output values'']),
        (''geometry'',
          [''The Pythagorean theorem states that a'' @ [CHR 0xC2, CHR 0xB2] @ '' + b'' @ [CHR 0xC2, CHR 0xB2]
             @ '' = c'' @ [CHR 0xC2, CHR 0xB2] @ '' for right triangles'',
           ''Area of a circle is '' @ [CHR 0xCF, CHR 0x80] @ '' '' @ [CHR 0xC3, CHR 0x97] @ '' radius squared'',
           ''Parallel lines never intersect and have the same slope''])]),
     (''science'',
       [(''physics'',
          [''Newton's first law states that objects in motion stay in motion unless acted upon by force'',
           ''Energy cannot be created or destroyed, only transformed from one form to another'',
           ''Force equals mass times acceleration (F = ma)'']),
        (''chemistry'',
          [''Atoms consist of protons, neutrons, and electrons'',
           ''Chemical reactions involve breaking and forming bonds between atoms'',
           ''The periodic table organizes elements by atomic number''])]),
     (''english'',
       [(''literature'',
          [''Theme is the central message or meaning of a literary work'',
           ''Character development shows how characters change throughout a story'',
           ''Symbolism uses objects or actions to represent deeper meanings'']),
        (''grammar'',
          [''Subjects perform the action in a sentence while objects receive it'',
           ''Proper punctuation helps clarify meaning and structure'',
           ''Active voice makes writing more direct and engaging''])])]"

definition reward_criteria :: "(RewardType \<times> criteria) list" where
  "reward_criteria =
    [(PLATINUM, \<lparr>min_score = 9/10, points = 100, description = ''Exceptional understanding!''\<rparr>),
     (GOLD, \<lparr>min_score = 8/10, points = 75, description = ''Excellent work!''\<rparr>),
     (SILVER, \<lparr>min_score = 65/100, points = 50, description = ''Good effort!''\<rparr>),
     (BRONZE, \<lparr>min_score = 4/10, points = 25, description = ''Keep trying!''\<rparr>)]"

subsection \<open>Reward classifier\<close>

text \<open>
  \<^verbatim>\<open>determine_reward\<close>: the \<^verbatim>\<open>for\<close> loop over \<^verbatim>\<open>reward_criteria.items()\<close> returns at the first
  entry whose \<^verbatim>\<open>min_score\<close> the score reaches; after the loop the default is returned.
\<close>

fun determine_reward_loop :: "(RewardType \<times> criteria) list \<Rightarrow> real \<Rightarrow> RewardType \<times> int" where
  "determine_reward_loop [] s = (BRONZE, 10)"
| "determine_reward_loop ((rt, c) # rest) s =
     (if s \<ge> min_score c then (rt, points c) else determine_reward_loop rest s)"

definition determine_reward :: "real \<Rightarrow> RewardType \<times> int" where
  "determine_reward s = determine_reward_loop reward_criteria s"

subsection \<open>Similarity scorer\<close>

text \<open>
  \<^verbatim>\<open>str.lower()\<close>. The corpus keys are ASCII and hold no \<^verbatim>\<open>k\<close>, and the one code point
  outside ASCII that Python lowers to a single ASCII letter is the Kelvin sign (to \<^verbatim>\<open>k\<close>), so
  lowering the ASCII capitals and leaving every other byte decides the lookup as Python does.
\<close>

definition lower_char :: "char \<Rightarrow> char" where
  "lower_char c =
     (if (65::nat) \<le> of_char c \<and> of_char c \<le> (90::nat) then char_of (of_char c + (32::nat)) else c)"

definition lower :: "string \<Rightarrow> string" where
  "lower s = map lower_char s"

text \<open>\<^verbatim>\<open>sep.join(xs)\<close>.\<close>

fun join :: "string \<Rightarrow> string list \<Rightarrow> string" where
  "join sep [] = []"
| "join sep [x] = x"
| "join sep (x # y # ys) = x @ sep @ join sep (y # ys)"

text \<open>
  \<^verbatim>\<open>model.encode(texts)\<close>: one vector per text, in order; the call raises when the provider
  raises on one of the texts.
\<close>

fun encode :: "encoder \<Rightarrow> string list \<Rightarrow> error + real list list" where
  "encode enc [] = Inr []"
| "encode enc (t # ts) =
     (case enc t of
        None \<Rightarrow> Inl EncodeError
      | Some v \<Rightarrow> (case encode enc ts of Inl e \<Rightarrow> Inl e | Inr vs \<Rightarrow> Inr (v # vs)))"

text \<open>
  \<^verbatim>\<open>sklearn.metrics.pairwise.cosine_similarity(X, Y)\<close>: both matrices are checked (at least
  one row, at least one column, the same number of columns), every row is divided by its
  Euclidean norm, a zero norm being replaced by 1, and the result is the matrix of the dot
  products of the normalised rows.
\<close>

definition dot :: "real list \<Rightarrow> real list \<Rightarrow> real" where
  "dot x y = sum_list (map2 (*) x y)"

definition row_norm :: "real list \<Rightarrow> real" where
  "row_norm x = sqrt (dot x x)"

definition normalize :: "real list \<Rightarrow> real list" where
  "normalize x = (let n = row_norm x; n' = (if n = 0 then 1 else n) in map (\<lambda>v. v / n') x)"

definition cosine :: "real list \<Rightarrow> real list \<Rightarrow> real" where
  "cosine x y = dot (normalize x) (normalize y)"

definition check_pairwise_arrays :: "real list list \<Rightarrow> real list list \<Rightarrow> bool" where
  "check_pairwise_arrays X Y \<longleftrightarrow>
     X \<noteq> [] \<and> Y \<noteq> [] \<and> hd X \<noteq> [] \<and>
     list_all (\<lambda>x. length x = length (hd X)) X \<and> list_all (\<lambda>y. length y = length (hd X)) Y"

definition cosine_similarity :: "real list list \<Rightarrow> real list list \<Rightarrow> error + real list list" where
  "cosine_similarity X Y =
     (if check_pairwise_arrays X Y
      then Inr (map (\<lambda>x. map (\<lambda>y. cosine x y) Y) X)
      else Inl ValueError)"

text \<open>\<^verbatim>\<open>np.max\<close> raises on an empty array.\<close>

fun np_max :: "real list \<Rightarrow> error + real" where
  "np_max [] = Inl ValueError"
| "np_max (x # xs) = Inr (fold max xs x)"

text \<open>
  \<^verbatim>\<open>np.argsort\<close>: the indices in ascending order of their values. numpy leaves the order
  of equal values open; the model keeps equal values in index order (\<^const>\<open>sort_key\<close> is
  stable). The properties proved of the matches hold for every order of equal values: they
  use only that the result is a permutation of the indices sorted by value.
\<close>

definition argsort :: "real list \<Rightarrow> nat list" where
  "argsort xs = sort_key (\<lambda>i. xs ! i) [0..<length xs]"

text \<open>The slice \<^verbatim>\<open>xs[-n:]\<close>: the last \<open>n\<close> entries, the whole list when it is shorter.\<close>

definition last_n :: "nat \<Rightarrow> 'a list \<Rightarrow> 'a list" where
  "last_n n xs = (if length xs \<le> n then xs else drop (length xs - n) xs)"

text \<open>
  The parts of the \<^verbatim>\<open>try\<close> block of \<^verbatim>\<open>analyze_response\<close>: the dictionary lookup with its
  default \<^verbatim>\<open>{}\<close>, and the list of reference strings, which is every reference of every topic
  of the subject, followed by the joined keywords when the response has some.
\<close>

definition subject_refs :: "StudentResponse \<Rightarrow> (string \<times> string list) list" where
  "subject_refs student_response =
     (case map_of reference_answers (lower (subject student_response)) of
        None \<Rightarrow> [] | Some d \<Rightarrow> d)"

definition all_refs :: "StudentResponse \<Rightarrow> string list" where
  "all_refs student_response =
     (let flat = concat (map snd (subject_refs student_response))
      in case expected_keywords student_response of
           None \<Rightarrow> flat
         | Some ks \<Rightarrow> if ks = [] then flat else flat @ [join '' '' ks])"

definition top_indices :: "real list \<Rightarrow> nat list" where
  "top_indices similarities = rev (last_n 3 (argsort similarities))"

definition best_matches :: "string list \<Rightarrow> real list \<Rightarrow> string list" where
  "best_matches refs similarities =
     map (\<lambda>i. refs ! i) (filter (\<lambda>i. similarities ! i > 3/10) (top_indices similarities))"

definition analyze_response_try :: "encoder \<Rightarrow> StudentResponse \<Rightarrow> error + (real \<times> string list)" where
  "analyze_response_try enc student_response =
     (if subject_refs student_response = [] then Inr (1/2, [])
      else
        case encode enc [response_text student_response] of
          Inl e \<Rightarrow> Inl e
        | Inr student_embedding \<Rightarrow>
        (case encode enc (all_refs student_response) of
          Inl e \<Rightarrow> Inl e
        | Inr reference_embeddings \<Rightarrow>
        (case cosine_similarity student_embedding reference_embeddings of
          Inl e \<Rightarrow> Inl e
        | Inr [] \<Rightarrow> Inl IndexError
        | Inr (similarities # _) \<Rightarrow>
        (case np_max similarities of
          Inl e \<Rightarrow> Inl e
        | Inr max_similarity \<Rightarrow>
            Inr (max_similarity, best_matches (all_refs student_response) similarities)))))"

text \<open>\<^verbatim>\<open>analyze_response\<close>: the \<^verbatim>\<open>except Exception\<close> clause turns every failure into \<open>(0.0, [])\<close>.\<close>

definition analyze_response :: "encoder \<Rightarrow> StudentResponse \<Rightarrow> real \<times> string list" where
  "analyze_response enc student_response =
     (case analyze_response_try enc student_response of
        Inl e \<Rightarrow> (0, [])
      | Inr res \<Rightarrow> res)"

subsection \<open>Feedback composer\<close>

record feedback_data =
  fd_feedback_text :: string
  fd_strengths :: "string list"
  fd_improvement_areas :: "string list"
  fd_tips :: "string list"
  fd_reward_type :: RewardType
  fd_points :: int

definition band_strengths :: "real \<Rightarrow> string list" where
  "band_strengths s =
     (if s \<ge> 8/10 then
        [''Demonstrates strong understanding of key concepts'',
         ''Uses appropriate terminology'',
         ''Provides clear explanations'']
      else if s \<ge> 6/10 then
        [''Shows good grasp of basic concepts'',
         ''Attempts to explain reasoning'']
      else [''Shows effort in attempting the question''])"

definition band_improvement_areas :: "real \<Rightarrow> string list" where
  "band_improvement_areas s =
     (if s \<ge> 8/10 then []
      else if s \<ge> 6/10 then
        [''Could use more specific terminology'',
         ''Explanations could be more detailed'']
      else
        [''Needs to review fundamental concepts'',
         ''Requires more specific and detailed responses''])"

definition band_tips :: "real \<Rightarrow> string list" where
  "band_tips s =
     (if s \<ge> 8/10 then
        [''Try to add more examples to strengthen your explanations'',
         ''Consider exploring advanced applications of these concepts'']
      else if s \<ge> 6/10 then
        [''Review key vocabulary for this topic'',
         ''Practice explaining concepts in your own words'',
         ''Try to include specific examples'']
      else
        [''Review the lesson materials again'',
         ''Ask your teacher for clarification on confusing topics'',
         ''Practice with similar problems'',
         ''Try to break down complex problems into smaller steps''])"

definition band_sentence :: "real \<Rightarrow> string" where
  "band_sentence s =
     (if s \<ge> 8/10 then
        ''You've shown excellent understanding of this topic. Your response demonstrates clear thinking and good use of relevant concepts.''
      else if s \<ge> 6/10 then
        ''You're on the right track! Your response shows good understanding, with room for more detail and precision.''
      else
        ''Keep working on this topic. Review the key concepts and try to be more specific in your explanations.'')"

text \<open>
  \<^verbatim>\<open>generate_personalized_feedback\<close>; the subscript \<^verbatim>\<open>reward_criteria[reward_type]\<close> raises
  \<^verbatim>\<open>KeyError\<close> on a missing key.
\<close>

definition generate_personalized_feedback ::
    "StudentResponse \<Rightarrow> real \<Rightarrow> string list \<Rightarrow> error + feedback_data" where
  "generate_personalized_feedback student_response score matches =
     (case determine_reward score of
        (rt, pts) \<Rightarrow>
          (case map_of reward_criteria rt of
             None \<Rightarrow> Inl KeyError
           | Some c \<Rightarrow>
               Inr \<lparr>fd_feedback_text = description c @ '' '' @ band_sentence score,
                    fd_strengths = band_strengths score,
                    fd_improvement_areas = band_improvement_areas score,
                    fd_tips = band_tips score,
                    fd_reward_type = rt,
                    fd_points = pts\<rparr>))"

subsection \<open>Alert rule engine\<close>

definition low_performance_alert :: "datetime \<Rightarrow> StudentResponse \<Rightarrow> EducatorAlert" where
  "low_performance_alert now student_response =
     \<lparr>alert_id = Alert now,
      student_id_a = student_id student_response,
      alert_type = ''low_performance'',
      severity = ''high'',
      description_a = ''Student showing very low understanding in '' @ subject student_response,
      timestamp_a = now,
      action_required = True\<rparr>"

definition consistent_struggle_alert :: "datetime \<Rightarrow> StudentResponse \<Rightarrow> EducatorAlert" where
  "consistent_struggle_alert now student_response =
     \<lparr>alert_id = AlertPattern now,
      student_id_a = student_id student_response,
      alert_type = ''consistent_struggle'',
      severity = ''medium'',
      description_a = ''Student showing consistent difficulties across multiple responses'',
      timestamp_a = now,
      action_required = True\<rparr>"

definition check_for_educator_alerts ::
    "datetime \<Rightarrow> FeedbackGenerator \<Rightarrow> StudentResponse \<Rightarrow> real \<Rightarrow> FeedbackGenerator" where
  "check_for_educator_alerts now self student_response score =
     (let alerts = (if score < 3/10 then [low_performance_alert now student_response] else []);
          recent_scores =
            map similarity_score
              (filter (\<lambda>f. student_id_f f = student_id student_response)
                 (last_n 5 (feedback_history self)));
          alerts =
            (if length recent_scores \<ge> 3 \<and> list_all (\<lambda>score. score < 1/2) recent_scores
             then alerts @ [consistent_struggle_alert now student_response]
             else alerts)
      in self\<lparr>educator_alerts := educator_alerts self @ alerts\<rparr>)"

subsection \<open>Feedback generation\<close>

text \<open>
  \<^verbatim>\<open>generate_feedback\<close> returns the record and the updated generator; its \<^verbatim>\<open>except\<close> clause
  logs and raises again, so a failure of the composer is the result \<open>Inl\<close>.
\<close>

definition generate_feedback ::
    "encoder \<Rightarrow> datetime \<Rightarrow> FeedbackGenerator \<Rightarrow> StudentResponse \<Rightarrow> error + (Feedback \<times> FeedbackGenerator)" where
  "generate_feedback enc now self student_response =
     (case analyze_response enc student_response of
        (score, matches) \<Rightarrow>
          (case generate_personalized_feedback student_response score matches of
             Inl e \<Rightarrow> Inl e
           | Inr fd \<Rightarrow>
               let feedback =
                     \<lparr>response_id = Resp now,
                      student_id_f = student_id student_response,
                      similarity_score = score,
                      reward_type = fd_reward_type fd,
                      feedback_text = fd_feedback_text fd,
                      strengths = fd_strengths fd,
                      improvement_areas = fd_improvement_areas fd,
                      personalized_tips = fd_tips fd,
                      points_earned = fd_points fd,
                      timestamp_f = now\<rparr>;
                   self1 = self\<lparr>feedback_history := feedback_history self @ [feedback]\<rparr>;
                   self2 = check_for_educator_alerts now self1 student_response score
               in Inr (feedback, self2)))"

text \<open>
  A run of the generator: the responses are submitted one after the other, each with its
  clock reading, and the run stops at the first failure.
\<close>

fun generate_all ::
    "encoder \<Rightarrow> FeedbackGenerator \<Rightarrow> (datetime \<times> StudentResponse) list \<Rightarrow> error + FeedbackGenerator" where
  "generate_all enc self [] = Inr self"
| "generate_all enc self ((now, r) # rs) =
     (case generate_feedback enc now self r of
        Inl e \<Rightarrow> Inl e
      | Inr (fb, self') \<Rightarrow> generate_all enc self' rs)"

subsection \<open>The scorer and the generator with the similarity kernel left open\<close>

text \<open>
  \<^verbatim>\<open>sklearn\<close> computes the similarities in IEEE floating point, where the value it returns
  for a pair of rows is the cosine only up to rounding. The definitions below are
  \<^verbatim>\<open>analyze_response\<close> and \<^verbatim>\<open>generate_feedback\<close> once more, line by line, with the value
  the library returns for a pair of rows as the parameter \<open>sim\<close>. Every other step of the
  code (the lookups, \<^verbatim>\<open>np.max\<close>, the conversion to \<^verbatim>\<open>float\<close>, the appends) is exact on
  the values it is given, so a property proved for every \<open>sim\<close> does not depend on how the
  library rounds.
\<close>

definition cosine_similarity_with ::
    "(real list \<Rightarrow> real list \<Rightarrow> real) \<Rightarrow> real list list \<Rightarrow> real list list \<Rightarrow> error + real list list" where
  "cosine_similarity_with sim X Y =
     (if check_pairwise_arrays X Y
      then Inr (map (\<lambda>x. map (\<lambda>y. sim x y) Y) X)
      else Inl ValueError)"

definition analyze_response_try_with ::
    "(real list \<Rightarrow> real list \<Rightarrow> real) \<Rightarrow> encoder \<Rightarrow> StudentResponse \<Rightarrow> error + (real \<times> string list)" where
  "analyze_response_try_with sim enc student_response =
     (if subject_refs student_response = [] then Inr (1/2, [])
      else
        case encode enc [response_text student_response] of
          Inl e \<Rightarrow> Inl e
        | Inr student_embedding \<Rightarrow>
        (case encode enc (all_refs student_response) of
          Inl e \<Rightarrow> Inl e
        | Inr reference_embeddings \<Rightarrow>
        (case cosine_similarity_with sim student_embedding reference_embeddings of
          Inl e \<Rightarrow> Inl e
        | Inr [] \<Rightarrow> Inl IndexError
        | Inr (similarities # _) \<Rightarrow>
        (case np_max similarities of
          Inl e \<Rightarrow> Inl e
        | Inr max_similarity \<Rightarrow>
            Inr (max_similarity, best_matches (all_refs student_response) similarities)))))"

definition analyze_response_with ::
    "(real list \<Rightarrow> real list \<Rightarrow> real) \<Rightarrow> encoder \<Rightarrow> StudentResponse \<Rightarrow> real \<times> string list" where
  "analyze_response_with sim enc student_response =
     (case analyze_response_try_with sim enc student_response of
        Inl e \<Rightarrow> (0, [])
      | Inr res \<Rightarrow> res)"

definition generate_feedback_with ::
    "(real list \<Rightarrow> real list \<Rightarrow> real) \<Rightarrow> encoder \<Rightarrow> datetime \<Rightarrow> FeedbackGenerator \<Rightarrow> StudentResponse
      \<Rightarrow> error + (Feedback \<times> FeedbackGenerator)" where
  "generate_feedback_with sim enc now self student_response =
     (case analyze_response_with sim enc student_response of
        (score, matches) \<Rightarrow>
          (case generate_personalized_feedback student_response score matches of
             Inl e \<Rightarrow> Inl e
           | Inr fd \<Rightarrow>
               let feedback =
                     \<lparr>response_id = Resp now,
                      student_id_f = student_id student_response,
                      similarity_score = score,
                      reward_type = fd_reward_type fd,
                      feedback_text = fd_feedback_text fd,
                      strengths = fd_strengths fd,
                      improvement_areas = fd_improvement_areas fd,
                      personalized_tips = fd_tips fd,
                      points_earned = fd_points fd,
                      timestamp_f = now\<rparr>;
                   self1 = self\<lparr>feedback_history := feedback_history self @ [feedback]\<rparr>;
                   self2 = check_for_educator_alerts now self1 student_response score
               in Inr (feedback, self2)))"

fun generate_all_with ::
    "(real list \<Rightarrow> real list \<Rightarrow> real) \<Rightarrow> encoder \<Rightarrow> FeedbackGenerator \<Rightarrow> (datetime \<times> StudentResponse) list
      \<Rightarrow> error + FeedbackGenerator" where
  "generate_all_with sim enc self [] = Inr self"
| "generate_all_with sim enc self ((now, r) # rs) =
     (case generate_feedback_with sim enc now self r of
        Inl e \<Rightarrow> Inl e
      | Inr (fb, self') \<Rightarrow> generate_all_with sim enc self' rs)"

subsection \<open>Progress and dashboard\<close>

text \<open>\<^verbatim>\<open>np.mean\<close>; every call of the source is guarded against the empty list.\<close>

definition np_mean :: "real list \<Rightarrow> real" where
  "np_mean xs = sum_list xs / real (length xs)"

record progress_report =
  pr_student_id :: string
  pr_total_responses :: nat
  pr_average_score :: real
  pr_latest_score :: real
  pr_total_points :: int
  pr_reward_distribution :: "(string \<times> nat) list"
  pr_recent_improvement :: real
  pr_last_updated :: datetime

text \<open>
  The two dictionaries \<^verbatim>\<open>get_student_progress\<close> returns: the one with the single key
  \<^verbatim>\<open>"error"\<close>, and the report.
\<close>

datatype progress_result = ProgressError string | ProgressReport progress_report

definition get_student_progress :: "FeedbackGenerator \<Rightarrow> string \<Rightarrow> progress_result" where
  "get_student_progress self sid =
     (let student_feedback = filter (\<lambda>f. student_id_f f = sid) (feedback_history self)
      in if student_feedback = [] then ProgressError ''No feedback found for this student''
         else
           let scores = map similarity_score student_feedback;
               total_points = sum_list (map points_earned student_feedback);
               reward_counts =
                 map (\<lambda>rt. (RewardType_value rt,
                             length (filter (\<lambda>f. reward_type f = rt) student_feedback)))
                   RewardType_members
           in ProgressReport
                \<lparr>pr_student_id = sid,
                 pr_total_responses = length student_feedback,
                 pr_average_score = np_mean scores,
                 pr_latest_score = last scores,
                 pr_total_points = total_points,
                 pr_reward_distribution = reward_counts,
                 pr_recent_improvement = (if length scores > 1 then last scores - hd scores else 0),
                 pr_last_updated = timestamp_f (last student_feedback)\<rparr>)"

record class_overview =
  total_students :: nat
  total_responses :: nat
  class_average_score :: real
  students_needing_attention :: nat

record dashboard =
  db_class_overview :: class_overview
  db_recent_alerts :: "EducatorAlert list"
  db_struggling_students :: "string list"
  db_last_updated :: datetime

definition seven_days :: int where
  "seven_days = 7 * 86400 * 1000000"

text \<open>
  \<^verbatim>\<open>get_educator_dashboard\<close> assigns no attribute of the generator. \<^verbatim>\<open>list(set(...))\<close> is the
  list of the distinct student ids; Python leaves its order open.
\<close>

definition get_educator_dashboard :: "datetime \<Rightarrow> FeedbackGenerator \<Rightarrow> dashboard" where
  "get_educator_dashboard now self =
     (let all_students = remdups (map student_id_f (feedback_history self));
          all_scores = map similarity_score (feedback_history self);
          class_average = (if all_scores \<noteq> [] then np_mean all_scores else 0);
          struggling_students =
            filter
              (\<lambda>sid.
                 let recent_scores =
                       map similarity_score
                         (filter (\<lambda>f. student_id_f f = sid) (last_n 3 (feedback_history self)))
                 in recent_scores \<noteq> [] \<and> np_mean recent_scores < 4/10)
              all_students;
          recent_alerts =
            filter (\<lambda>alert. timestamp_a alert > now - seven_days) (educator_alerts self)
      in \<lparr>db_class_overview =
            \<lparr>total_students = length all_students,
             total_responses = length (feedback_history self),
             class_average_score = class_average,
             students_needing_attention = length struggling_students\<rparr>,
          db_recent_alerts = recent_alerts,
          db_struggling_students = struggling_students,
          db_last_updated = now\<rparr>)"

subsection \<open>Sample inputs\<close>

text \<open>
  Embedding providers and responses on which the properties below are evaluated: a
  provider that always raises, one that places the response at cosine 0.2 from every
  reference, one that places it opposite to every reference, one that grades the
  references, and one that places it on the first reference and at a right angle to the
  others.
\<close>

definition enc_fail :: encoder where
  "enc_fail t = None"

definition enc_low :: encoder where
  "enc_low t = (if t = ''r'' then Some [1, 0, 0, 0] else Some [1/5, 4/5, 2/5, 2/5])"


definition enc_graded :: encoder where
  "enc_graded t =
     (if t = ''r'' then Some [1, 0]
      else if t = ''To solve linear equations, isolate the variable by performing inverse operations on both sides''
        then Some [4/5, 3/5]
      else if t = ''Functions represent relationships between input and output values''
        then Some [3/5, 4/5]
      else Some [0, 1])"


definition sample_response :: "string \<Rightarrow> string \<Rightarrow> StudentResponse" where
  "sample_response sid subj =
     \<lparr>student_id = sid, question_id = ''q1'', response_text = ''r'', subject = subj,
      timestamp = 0, expected_keywords = None\<rparr>"

definition five_responses :: "(datetime \<times> StudentResponse) list" where
  "five_responses =
     [(1, sample_response ''s1'' ''Mathematics''), (2, sample_response ''s1'' ''Mathematics''),
      (3, sample_response ''s1'' ''Mathematics''), (4, sample_response ''s1'' ''Mathematics''),
      (5, sample_response ''s1'' ''Mathematics'')]"


definition alert_types_of_run :: "error + FeedbackGenerator \<Rightarrow> string list" where
  "alert_types_of_run res =
     (case res of Inl e \<Rightarrow> [] | Inr g \<Rightarrow> map alert_type (educator_alerts g))"

section \<open>Properties\<close>

subsection \<open>Reward classifier\<close>

lemma determine_reward_unfold:
  "determine_reward s =
     (if s \<ge> 9/10 then (PLATINUM, 100)
      else if s \<ge> 8/10 then (GOLD, 75)
      else if s \<ge> 65/100 then (SILVER, 50)
      else if s \<ge> 4/10 then (BRONZE, 25)
      else (BRONZE, 10))"
  by (simp add: determine_reward_def reward_criteria_def)

text \<open>
  C1. For every score \<open>s\<close>, \<open>determine_reward s\<close> is the first matching entry of the threshold
  table read from the highest threshold down: platinum and 100 points from 0.90, else gold
  and 75 from 0.80, else silver and 50 from 0.65, else bronze and 25 from 0.40, else the
  participation fallback, bronze with 10 points.
\<close>

theorem determine_reward_table:
  "determine_reward s =
     (if s \<ge> 0.90 then (PLATINUM, 100)
      else if s \<ge> 0.80 then (GOLD, 75)
      else if s \<ge> 0.65 then (SILVER, 50)
      else if s \<ge> 0.40 then (BRONZE, 25)
      else (BRONZE, 10))"
  by (simp add: determine_reward_def reward_criteria_def)

theorem determine_reward_table_witness:
  "determine_reward 0.85 = (GOLD, 75) \<and> determine_reward 0.39 = (BRONZE, 10)"
  using determine_reward_table [of "0.85"] determine_reward_table [of "0.39"] by simp

text \<open>
  C7. \<open>determine_reward\<close> is a function, so a score has exactly one outcome, one of the five
  of the table, and the points awarded are monotonic in the score: platinum (100) above
  gold (75) above silver (50) above bronze from 0.4 (25) above the default bronze (10).
  The statement holds for every pair of real scores, in particular on [0,1].
\<close>

theorem determine_reward_monotone:
  "s1 \<le> s2 \<Longrightarrow>
     determine_reward s1 \<in> {(PLATINUM, 100), (GOLD, 75), (SILVER, 50), (BRONZE, 25), (BRONZE, 10)} \<and>
     snd (determine_reward s1) \<le> snd (determine_reward s2)"
  by (simp add: determine_reward_unfold)

theorem determine_reward_monotone_witness:
  "(1/2 :: real) \<le> 85/100 \<and>
   determine_reward (1/2) = (BRONZE, 25) \<and> determine_reward (85/100) = (GOLD, 75) \<and>
   snd (determine_reward (1/2)) \<le> snd (determine_reward (85/100))"
  using determine_reward_monotone [of "1/2" "85/100"] by (simp add: determine_reward_unfold)

subsection \<open>Subject lookup\<close>

lemma lower_samples:
  "lower ''Mathematics'' = ''mathematics''"
  "lower ''mathematics'' = ''mathematics''"
  "lower ''history'' = ''history''"
  by code_simp+

lemma reference_subjects:
  "fst ` set reference_answers = {''mathematics'', ''science'', ''english''}"
  by (simp add: reference_answers_def)

lemma subject_known_iff:
  "subject_refs r \<noteq> [] \<longleftrightarrow> lower (subject r) \<in> {''mathematics'', ''science'', ''english''}"
  by (simp add: subject_refs_def reference_answers_def)

lemma subject_refs_nonempty:
  "lower (subject r) \<in> fst ` set reference_answers \<Longrightarrow> subject_refs r \<noteq> []"
  by (simp add: subject_known_iff reference_subjects)

lemma subject_refs_sample:
  "subject_refs (sample_response sid ''Mathematics'') \<noteq> []"
  by (simp add: subject_known_iff sample_response_def lower_samples)

text \<open>
  C6. When the lowered subject of a response is not a key of the reference corpus,
  \<open>analyze_response\<close> returns the score 0.5 and no match, whatever the embedding provider
  does; the result is a value, so nothing is raised.
\<close>

theorem analyze_response_unknown_subject:
  assumes "lower (subject r) \<notin> fst ` set reference_answers"
  shows "analyze_response enc r = (1/2, [])"
proof -
  from assms have "map_of reference_answers (lower (subject r)) = None"
    by (metis map_of_eq_None_iff)
  then have "subject_refs r = []"
    by (simp add: subject_refs_def)
  then show ?thesis
    by (simp add: analyze_response_def analyze_response_try_def)
qed

theorem analyze_response_unknown_subject_witness:
  "lower (subject (sample_response ''s1'' ''history'')) \<notin> fst ` set reference_answers \<and>
   analyze_response enc_fail (sample_response ''s1'' ''history'') = (1/2, [])"
proof -
  have h: "lower (subject (sample_response ''s1'' ''history'')) \<notin> fst ` set reference_answers"
    by (simp add: sample_response_def lower_samples reference_answers_def)
  from analyze_response_unknown_subject [OF h, of enc_fail] h show ?thesis by simp
qed

subsection \<open>Failure policy of the scorer\<close>

text \<open>
  C4. \<open>analyze_response\<close> returns a pair on every input: whenever the body of its
  \<^verbatim>\<open>try\<close> block fails, with whatever error, the result is the score 0.0 with no match. In
  particular this is the result when the subject is known and the provider raises on the
  response text.
\<close>

theorem analyze_response_never_raises:
  "(analyze_response_try enc r = Inl e \<longrightarrow> analyze_response enc r = (0, [])) \<and>
   (subject_refs r \<noteq> [] \<and> enc (response_text r) = None \<longrightarrow> analyze_response enc r = (0, []))"
  by (simp add: analyze_response_def analyze_response_try_def)

theorem analyze_response_never_raises_witness:
  "analyze_response_try enc_fail (sample_response ''s1'' ''Mathematics'') = Inl EncodeError \<and>
   subject_refs (sample_response ''s1'' ''Mathematics'') \<noteq> [] \<and>
   enc_fail (response_text (sample_response ''s1'' ''Mathematics'')) = None \<and>
   analyze_response enc_fail (sample_response ''s1'' ''Mathematics'') = (0, [])"
proof -
  have k: "subject_refs (sample_response ''s1'' ''Mathematics'') \<noteq> []"
    by (rule subject_refs_sample)
  have n: "enc_fail (response_text (sample_response ''s1'' ''Mathematics'')) = None"
    by (simp add: enc_fail_def)
  have t: "analyze_response_try enc_fail (sample_response ''s1'' ''Mathematics'') = Inl EncodeError"
    using k n by (simp add: analyze_response_try_def)
  from analyze_response_never_raises [of enc_fail "sample_response ''s1'' ''Mathematics''" EncodeError] k n t
  show ?thesis by simp
qed

subsection \<open>The exact cosine lies between -1 and 1\<close>

text \<open>
  These are facts of the kernel \<^const>\<open>cosine\<close> over the reals. In floating point the library
  can return a value just outside, such as \<^verbatim>\<open>1.0000000000000002\<close> for two equal rows.
\<close>

lemma dot_Cons [simp]: "dot (a # x) (b # y) = a * b + dot x y"
  by (simp add: dot_def)

lemma dot_Nil [simp]: "dot [] y = 0" "dot x [] = 0"
  by (simp_all add: dot_def)

lemma dot_self_nonneg: "0 \<le> dot x x"
  by (induction x) simp_all

lemma two_dot_le: "2 * dot x y \<le> dot x x + dot y y"
proof (induction x arbitrary: y)
  case Nil
  then show ?case by (simp add: dot_self_nonneg)
next
  case (Cons a x)
  show ?case
  proof (cases y)
    case Nil
    then show ?thesis using dot_self_nonneg [of "a # x"] by simp
  next
    case (Cons b y')
    have "2 * a * b \<le> a\<^sup>2 + b\<^sup>2" by (rule sum_squares_bound)
    with Cons.IH [of y'] Cons show ?thesis
      by (simp add: power2_eq_square algebra_simps)
  qed
qed

lemma dot_map_uminus: "dot (map uminus x) y = - dot x y"
proof (induction x arbitrary: y)
  case Nil
  then show ?case by simp
next
  case (Cons a x)
  then show ?case by (cases y) simp_all
qed

lemma dot_map_uminus_self: "dot (map uminus x) (map uminus x) = dot x x"
  by (induction x) simp_all

lemma neg_two_dot_le: "- (2 * dot x y) \<le> dot x x + dot y y"
proof -
  have "2 * dot (map uminus x) y \<le> dot (map uminus x) (map uminus x) + dot y y"
    by (rule two_dot_le)
  moreover have "dot (map uminus x) (map uminus x) = dot x x"
    by (rule dot_map_uminus_self)
  moreover have "dot (map uminus x) y = - dot x y"
    by (rule dot_map_uminus)
  ultimately show ?thesis by linarith
qed

lemma dot_map_divide: "dot (map (\<lambda>v. v / c) x) (map (\<lambda>v. v / c) x) = dot x x / (c * c)"
  by (induction x) (simp_all add: add_divide_distrib)

lemma dot_normalize_le_1: "dot (normalize x) (normalize x) \<le> 1"
proof (cases "row_norm x = 0")
  case True
  then have "dot x x = 0" by (simp add: row_norm_def)
  with True show ?thesis by (simp add: normalize_def dot_map_divide)
next
  case False
  have "row_norm x * row_norm x = dot x x"
    by (simp add: row_norm_def dot_self_nonneg)
  with False show ?thesis by (simp add: normalize_def dot_map_divide)
qed

lemma cosine_le_1: "cosine x y \<le> 1"
  using two_dot_le [of "normalize x" "normalize y"] dot_normalize_le_1 [of x] dot_normalize_le_1 [of y]
  by (simp add: cosine_def)

lemma cosine_ge_minus_1: "- 1 \<le> cosine x y"
  using neg_two_dot_le [of "normalize x" "normalize y"] dot_normalize_le_1 [of x] dot_normalize_le_1 [of y]
  by (simp add: cosine_def)

text \<open>For vectors of non-zero norm this is the cosine of the angle between them.\<close>

lemma dot_map_divide2: "dot (map (\<lambda>v. v / a) x) (map (\<lambda>v. v / b) y) = dot x y / (a * b)"
proof (induction x arbitrary: y)
  case Nil
  then show ?case by simp
next
  case (Cons c x)
  then show ?case by (cases y) (simp_all add: add_divide_distrib)
qed

lemma cosine_formula:
  "row_norm x \<noteq> 0 \<Longrightarrow> row_norm y \<noteq> 0 \<Longrightarrow> cosine x y = dot x y / (row_norm x * row_norm y)"
  by (simp add: cosine_def normalize_def dot_map_divide2)

subsection \<open>What the scorer returns\<close>

lemma np_max_eq_Max:
  assumes "xs \<noteq> []"
  shows "np_max xs = Inr (Max (set xs))"
proof (cases xs)
  case Nil
  with assms show ?thesis by simp
next
  case (Cons a list)
  then show ?thesis using Max.set_eq_fold [of a list] by simp
qed

lemma np_max_in_set: "np_max xs = Inr m \<Longrightarrow> m \<in> set xs"
proof -
  assume a: "np_max xs = Inr m"
  then have ne: "xs \<noteq> []" by (cases xs) simp_all
  with a have "m = Max (set xs)" by (simp add: np_max_eq_Max)
  with ne show ?thesis using Max_in [of "set xs"] by simp
qed


text \<open>What a run of the body of \<open>analyze_response\<close> that did not fail has computed.\<close>

lemma analyze_response_try_InrD:
  assumes "analyze_response_try enc r = Inr (score, matches)" and "subject_refs r \<noteq> []"
  shows "\<exists>u vs. enc (response_text r) = Some u \<and> encode enc (all_refs r) = Inr vs \<and>
           check_pairwise_arrays [u] vs \<and>
           np_max (map (cosine u) vs) = Inr score \<and>
           matches = best_matches (all_refs r) (map (cosine u) vs)"
  using assms
  by (auto simp: analyze_response_try_def cosine_similarity_def
      split: option.splits sum.splits if_splits list.splits)

lemma analyze_response_cases:
  "analyze_response enc r = (1/2, []) \<or> analyze_response enc r = (0, []) \<or>
   (\<exists>u vs. np_max (map (cosine u) vs) = Inr (fst (analyze_response enc r)))"
proof (cases "subject_refs r = []")
  case True
  then show ?thesis by (simp add: analyze_response_def analyze_response_try_def)
next
  case False
  show ?thesis
  proof (cases "analyze_response_try enc r")
    case (Inl e)
    then show ?thesis by (simp add: analyze_response_def)
  next
    case (Inr res)
    obtain score matches where res: "res = (score, matches)" by (cases res)
    from analyze_response_try_InrD [OF Inr [unfolded res] False] Inr res
    show ?thesis by (auto simp: analyze_response_def)
  qed
qed

text \<open>With the exact kernel the score lies in [-1,1].\<close>

lemma analyze_response_score_bounds:
  "- 1 \<le> fst (analyze_response enc r) \<and> fst (analyze_response enc r) \<le> 1"
proof -
  consider "analyze_response enc r = (1/2, [])" | "analyze_response enc r = (0, [])"
    | u vs where "np_max (map (cosine u) vs) = Inr (fst (analyze_response enc r))"
    using analyze_response_cases [of enc r] by blast
  then show ?thesis
  proof cases
    case 3
    from np_max_in_set [OF 3] obtain v where "fst (analyze_response enc r) = cosine u v" by auto
    then show ?thesis using cosine_le_1 [of u v] cosine_ge_minus_1 [of u v] by simp
  qed simp_all
qed


text \<open>The scorer on the sample inputs.\<close>

lemmas scorer_defs =
  analyze_response_def analyze_response_try_def subject_refs_def all_refs_def best_matches_def
  top_indices_def sample_response_def lower_samples reference_answers_def
  cosine_similarity_def check_pairwise_arrays_def cosine_def normalize_def row_norm_def dot_def
  argsort_def last_n_def upt_rec

lemma analyze_response_enc_low:
  "analyze_response enc_low (sample_response sid ''Mathematics'') = (1/5, [])"
  by (simp add: scorer_defs enc_low_def)





subsection \<open>Feedback generation and the history store\<close>

lemma generate_personalized_feedback_total:
  "\<exists>fd. generate_personalized_feedback r s ms = Inr fd"
  by (simp add: generate_personalized_feedback_def determine_reward_unfold reward_criteria_def)

lemma check_for_educator_alerts_history [simp]:
  "feedback_history (check_for_educator_alerts now self r s) = feedback_history self"
  by (simp add: check_for_educator_alerts_def Let_def)

text \<open>The alerts one call appends, read off the history it is given.\<close>

lemma check_for_educator_alerts_alerts:
  "educator_alerts (check_for_educator_alerts now self r s) =
     educator_alerts self
     @ (if s < 3/10 then [low_performance_alert now r] else [])
     @ (let recent = filter (\<lambda>f. student_id_f f = student_id r) (last_n 5 (feedback_history self))
        in if 3 \<le> length recent \<and> list_all (\<lambda>f. similarity_score f < 1/2) recent
           then [consistent_struggle_alert now r] else [])"
  by (simp add: check_for_educator_alerts_def Let_def list_all_iff)

text \<open>\<open>generate_feedback\<close> never fails: the reward it looks up is a key of the table.\<close>

lemma generate_feedback_total:
  "\<exists>fb. generate_feedback enc now self r =
     Inr (fb, check_for_educator_alerts now (self\<lparr>feedback_history := feedback_history self @ [fb]\<rparr>) r
                (fst (analyze_response enc r))) \<and>
     student_id_f fb = student_id r \<and> similarity_score fb = fst (analyze_response enc r)"
proof -
  obtain score ms where a: "analyze_response enc r = (score, ms)" by (cases "analyze_response enc r")
  obtain fd where "generate_personalized_feedback r score ms = Inr fd"
    using generate_personalized_feedback_total by blast
  with a show ?thesis by (simp add: generate_feedback_def Let_def)
qed

lemma generate_feedback_InrD:
  assumes "generate_feedback enc now self r = Inr (fb, g)"
  shows "feedback_history g = feedback_history self @ [fb]"
    and "student_id_f fb = student_id r"
    and "similarity_score fb = fst (analyze_response enc r)"
  using assms generate_feedback_total [of enc now self r] by auto

lemma generate_all_total: "\<exists>g. generate_all enc self rs = Inr g"
proof (induction rs arbitrary: self)
  case Nil
  then show ?case by simp
next
  case (Cons x rs)
  obtain now r where x: "x = (now, r)" by (cases x)
  from generate_feedback_total [of enc now self r] obtain fb self' where
    gf: "generate_feedback enc now self r = Inr (fb, self')" by blast
  with Cons.IH [of self'] x show ?case by simp
qed


subsection \<open>The score with the library kernel left open\<close>

text \<open>With the exact cosine as kernel these are the scorer and the generator above.\<close>

lemma cosine_similarity_with_cosine: "cosine_similarity_with cosine X Y = cosine_similarity X Y"
  by (simp add: cosine_similarity_with_def cosine_similarity_def)

lemma analyze_response_try_with_cosine:
  "analyze_response_try_with cosine enc r = analyze_response_try enc r"
  unfolding analyze_response_try_with_def analyze_response_try_def cosine_similarity_with_cosine
  by (rule refl)

lemma analyze_response_with_cosine: "analyze_response_with cosine enc r = analyze_response enc r"
  by (simp add: analyze_response_with_def analyze_response_def analyze_response_try_with_cosine)

lemma generate_feedback_with_cosine:
  "generate_feedback_with cosine enc now self r = generate_feedback enc now self r"
  by (simp add: generate_feedback_with_def generate_feedback_def analyze_response_with_cosine)

lemma generate_all_with_cosine: "generate_all_with cosine enc self rs = generate_all enc self rs"
  by (induction rs arbitrary: self) (auto simp: generate_feedback_with_cosine split: sum.splits)









subsection \<open>Alerts on a run of low scores\<close>

lemma filter_last_n_append:
  assumes "length fs \<le> n" and "\<forall>f \<in> set h. \<not> P f" and "\<forall>f \<in> set fs. P f"
  shows "filter P (last_n n (h @ fs)) = fs"
proof -
  have none: "filter P (drop k h) = []" for k
    using assms(2) by (auto simp: filter_empty_conv dest: in_set_dropD)
  have all: "filter P fs = fs"
    using assms(3) by simp
  show ?thesis
  proof (cases "length (h @ fs) \<le> n")
    case True
    with none [of 0] all show ?thesis by (simp add: last_n_def)
  next
    case False
    with assms(1) have "length h + length fs - n - length h = 0" by simp
    with False none [of "length h + length fs - n"] all show ?thesis
      by (simp add: last_n_def)
  qed
qed

text \<open>
  One call for a student whose earlier records \<open>fs\<close>, fewer than five and all below 0.5,
  are the tail of the history: the low-performance alert is appended, and the
  consistent-struggle alert with it as soon as two such records were there before.
\<close>

lemma generate_feedback_low_step:
  assumes r: "student_id r = sid" "fst (analyze_response enc r) = 1/5"
    and h: "feedback_history self = h @ fs" "\<forall>f \<in> set h. student_id_f f \<noteq> sid"
    and fs: "\<forall>f \<in> set fs. student_id_f f = sid \<and> similarity_score f < 1/2" "length fs < 5"
  shows "\<exists>fb g. generate_feedback enc now self r = Inr (fb, g) \<and>
           feedback_history g = h @ (fs @ [fb]) \<and>
           student_id_f fb = sid \<and> similarity_score fb < 1/2 \<and>
           educator_alerts g =
             educator_alerts self @ [low_performance_alert now r]
             @ (if 2 \<le> length fs then [consistent_struggle_alert now r] else [])"
proof -
  from generate_feedback_total [of enc now self r] obtain fb where
    gf: "generate_feedback enc now self r =
           Inr (fb, check_for_educator_alerts now (self\<lparr>feedback_history := feedback_history self @ [fb]\<rparr>) r
                  (fst (analyze_response enc r)))"
    and fb: "student_id_f fb = student_id r" "similarity_score fb = fst (analyze_response enc r)"
    by blast
  let ?g = "check_for_educator_alerts now (self\<lparr>feedback_history := feedback_history self @ [fb]\<rparr>) r
              (fst (analyze_response enc r))"
  have hist: "feedback_history ?g = h @ (fs @ [fb])"
    using h(1) by simp
  have recent: "filter (\<lambda>f. student_id_f f = student_id r) (last_n 5 (h @ (fs @ [fb]))) = fs @ [fb]"
    using fs r(1) fb(1) h(2) by (intro filter_last_n_append) auto
  have low: "list_all (\<lambda>f. similarity_score f < 1/2) (fs @ [fb])"
    using fs(1) fb(2) r(2) by (simp add: list_all_iff)
  have alerts: "educator_alerts ?g =
      educator_alerts self @ [low_performance_alert now r]
      @ (if 2 \<le> length fs then [consistent_struggle_alert now r] else [])"
    using recent low r(2) h(1) by (simp add: check_for_educator_alerts_alerts)
  have lt: "similarity_score fb < 1/2"
    using fb(2) r(2) by simp
  have sid: "student_id_f fb = sid"
    using fb(1) r(1) by simp
  from gf hist sid lt alerts show ?thesis by blast
qed

lemma five_low_scores_run:
  assumes h: "\<forall>f \<in> set (feedback_history self). student_id_f f \<noteq> sid"
    and r: "\<forall>r \<in> {r1, r2, r3, r4, r5}. student_id r = sid \<and> fst (analyze_response enc r) = 1/5"
  shows "\<exists>g. generate_all enc self [(n1, r1), (n2, r2), (n3, r3), (n4, r4), (n5, r5)] = Inr g \<and>
           educator_alerts g =
             educator_alerts self
             @ [low_performance_alert n1 r1, low_performance_alert n2 r2,
                low_performance_alert n3 r3, consistent_struggle_alert n3 r3,
                low_performance_alert n4 r4, consistent_struggle_alert n4 r4,
                low_performance_alert n5 r5, consistent_struggle_alert n5 r5]"
proof -
  let ?h = "feedback_history self"
  from r have r1: "student_id r1 = sid" "fst (analyze_response enc r1) = 1/5"
    and r2: "student_id r2 = sid" "fst (analyze_response enc r2) = 1/5"
    and r3: "student_id r3 = sid" "fst (analyze_response enc r3) = 1/5"
    and r4: "student_id r4 = sid" "fst (analyze_response enc r4) = 1/5"
    and r5: "student_id r5 = sid" "fst (analyze_response enc r5) = 1/5"
    by simp_all
  from generate_feedback_low_step [where r = r1 and sid = sid and enc = enc and self = self and h = "?h" and fs = "[]" and now = n1] r1 h
  obtain f1 g1 where s1: "generate_feedback enc n1 self r1 = Inr (f1, g1)"
    "feedback_history g1 = ?h @ [f1]" "student_id_f f1 = sid" "similarity_score f1 < 1/2"
    "educator_alerts g1 = educator_alerts self @ [low_performance_alert n1 r1]"
    by auto
  from generate_feedback_low_step [where r = r2 and sid = sid and enc = enc and self = g1 and h = "?h" and fs = "[f1]" and now = n2] r2 h s1
  obtain f2 g2 where s2: "generate_feedback enc n2 g1 r2 = Inr (f2, g2)"
    "feedback_history g2 = ?h @ [f1, f2]" "student_id_f f2 = sid" "similarity_score f2 < 1/2"
    "educator_alerts g2 = educator_alerts g1 @ [low_performance_alert n2 r2]"
    by auto
  from generate_feedback_low_step [where r = r3 and sid = sid and enc = enc and self = g2 and h = "?h" and fs = "[f1, f2]" and now = n3] r3 h s1 s2
  obtain f3 g3 where s3: "generate_feedback enc n3 g2 r3 = Inr (f3, g3)"
    "feedback_history g3 = ?h @ [f1, f2, f3]" "student_id_f f3 = sid" "similarity_score f3 < 1/2"
    "educator_alerts g3 = educator_alerts g2 @ [low_performance_alert n3 r3, consistent_struggle_alert n3 r3]"
    by auto
  from generate_feedback_low_step [where r = r4 and sid = sid and enc = enc and self = g3 and h = "?h" and fs = "[f1, f2, f3]" and now = n4] r4 h s1 s2 s3
  obtain f4 g4 where s4: "generate_feedback enc n4 g3 r4 = Inr (f4, g4)"
    "feedback_history g4 = ?h @ [f1, f2, f3, f4]" "student_id_f f4 = sid" "similarity_score f4 < 1/2"
    "educator_alerts g4 = educator_alerts g3 @ [low_performance_alert n4 r4, consistent_struggle_alert n4 r4]"
    by auto
  from generate_feedback_low_step [where r = r5 and sid = sid and enc = enc and self = g4 and h = "?h" and fs = "[f1, f2, f3, f4]" and now = n5] r5 h s1 s2 s3 s4
  obtain f5 g5 where s5: "generate_feedback enc n5 g4 r5 = Inr (f5, g5)"
    "educator_alerts g5 = educator_alerts g4 @ [low_performance_alert n5 r5, consistent_struggle_alert n5 r5]"
    by auto
  from s1(1,5) s2(1,5) s3(1,5) s4(1,5) s5 show ?thesis by simp
qed

lemma sample_is_low:
  "\<forall>r \<in> {sample_response ''s1'' ''Mathematics'', sample_response ''s1'' ''Mathematics'',
            sample_response ''s1'' ''Mathematics'', sample_response ''s1'' ''Mathematics'',
            sample_response ''s1'' ''Mathematics''}.
     student_id r = ''s1'' \<and> fst (analyze_response enc_low r) = 1/5"
  by (simp add: analyze_response_enc_low) (simp add: sample_response_def)

lemma init_no_records: "\<forall>f \<in> set (feedback_history init). student_id_f f \<noteq> sid"
  by (simp add: init_def)

lemmas alert_defs = low_performance_alert_def consistent_struggle_alert_def

text \<open>
  C3 (as amended). Five responses of one student, each scored 0.2, submitted one after the
  other to a generator whose history holds no record of that student: every call succeeds,
  each appends one low-performance alert (five in total), and the third, the fourth and the
  fifth each append a consistent-struggle alert as well (three in total), since alerts are
  not deduplicated.
\<close>

theorem five_low_scores_alerts:
  assumes "\<forall>f \<in> set (feedback_history self). student_id_f f \<noteq> sid"
    and "\<forall>r \<in> {r1, r2, r3, r4, r5}. student_id r = sid \<and> fst (analyze_response enc r) = 1/5"
  shows "\<exists>g. generate_all enc self [(n1, r1), (n2, r2), (n3, r3), (n4, r4), (n5, r5)] = Inr g \<and>
           educator_alerts g =
             educator_alerts self
             @ [low_performance_alert n1 r1, low_performance_alert n2 r2,
                low_performance_alert n3 r3, consistent_struggle_alert n3 r3,
                low_performance_alert n4 r4, consistent_struggle_alert n4 r4,
                low_performance_alert n5 r5, consistent_struggle_alert n5 r5]"
  using assms by (rule five_low_scores_run)

theorem five_low_scores_alerts_witness:
  "alert_types_of_run (generate_all enc_low init five_responses) =
     [''low_performance'', ''low_performance'',
      ''low_performance'', ''consistent_struggle'',
      ''low_performance'', ''consistent_struggle'',
      ''low_performance'', ''consistent_struggle'']"
proof -
  from five_low_scores_alerts [OF init_no_records sample_is_low, of 1 2 3 4 5]
  obtain g where "generate_all enc_low init five_responses = Inr g"
    and "map alert_type (educator_alerts g) =
     [''low_performance'', ''low_performance'',
      ''low_performance'', ''consistent_struggle'',
      ''low_performance'', ''consistent_struggle'',
      ''low_performance'', ''consistent_struggle'']"
    by (auto simp: five_responses_def init_def alert_defs)
  then show ?thesis by (simp add: alert_types_of_run_def)
qed

text \<open>
  The count of the claim, a single consistent-struggle alert, fails on the scripted run from
  the initial state: it holds three.
\<close>

theorem five_low_scores_three_struggle_alerts:
  "count_list (alert_types_of_run (generate_all enc_low init five_responses)) ''low_performance'' = 5 \<and>
   count_list (alert_types_of_run (generate_all enc_low init five_responses)) ''consistent_struggle'' = 3"
proof -
  from five_low_scores_run [OF init_no_records sample_is_low, of 1 2 3 4 5]
  obtain g where "generate_all enc_low init five_responses = Inr g"
    and "map alert_type (educator_alerts g) =
     [''low_performance'', ''low_performance'',
      ''low_performance'', ''consistent_struggle'',
      ''low_performance'', ''consistent_struggle'',
      ''low_performance'', ''consistent_struggle'']"
    by (auto simp: five_responses_def init_def alert_defs)
  then show ?thesis by (simp add: alert_types_of_run_def)
qed


subsection \<open>The best matches\<close>

lemma last_n_drop: "last_n n xs = drop (length xs - n) xs"
  by (simp add: last_n_def)

lemma argsort_props:
  "set (argsort sims) = {0..<length sims}" "distinct (argsort sims)"
  "sorted_wrt (\<lambda>i j. sims ! i \<le> sims ! j) (argsort sims)" "length (argsort sims) = length sims"
proof -
  have "sorted (map (\<lambda>i. sims ! i) (argsort sims))"
    unfolding argsort_def by (rule sorted_sort_key)
  then show "sorted_wrt (\<lambda>i j. sims ! i \<le> sims ! j) (argsort sims)"
    by (simp add: sorted_map)
qed (simp_all add: argsort_def)



text \<open>The first of the top indices is an index of the maximum.\<close>

lemma hd_top_indices_Max:
  assumes "sims \<noteq> []"
  shows "top_indices sims \<noteq> []" and "sims ! hd (top_indices sims) = Max (set sims)"
proof -
  let ?idx = "argsort sims" and ?k = "length (argsort sims) - 3"
  from assms have ne: "?idx \<noteq> []"
    using argsort_props(4) [of sims] by auto
  then have k: "?k < length ?idx" by (cases ?idx) simp_all
  then show "top_indices sims \<noteq> []"
    by (simp add: top_indices_def last_n_drop)
  have hd: "hd (top_indices sims) = last ?idx"
    using k by (simp add: top_indices_def last_n_drop hd_rev)
  have "last ?idx \<in> set ?idx" using ne by simp
  then have in_range: "last ?idx < length sims"
    by (simp add: argsort_props(1))
  have "sorted_wrt (\<lambda>i j. sims ! i \<le> sims ! j) (butlast ?idx @ [last ?idx])"
    using ne argsort_props(3) [of sims] by simp
  then have below: "\<forall>a \<in> set (butlast ?idx). sims ! a \<le> sims ! last ?idx"
    unfolding sorted_wrt_append by simp
  have "sims ! a \<le> sims ! last ?idx" if "a < length sims" for a
  proof -
    from that have "a \<in> set (butlast ?idx @ [last ?idx])"
      using ne by (simp add: argsort_props(1))
    then have "a \<in> set (butlast ?idx) \<or> a = last ?idx" by auto
    with below show ?thesis by auto
  qed
  then have "\<forall>x \<in> set sims. x \<le> sims ! last ?idx"
    by (auto simp: in_set_conv_nth)
  moreover have "sims ! last ?idx \<in> set sims"
    using in_range by simp
  ultimately have "Max (set sims) = sims ! last ?idx"
    by (intro Max_eqI) auto
  with hd show "sims ! hd (top_indices sims) = Max (set sims)" by simp
qed

lemma best_matches_nonempty:
  assumes "sims \<noteq> []" and "Max (set sims) > 3/10"
  shows "best_matches refs sims \<noteq> []"
proof -
  from hd_top_indices_Max [OF assms(1)] assms(2)
  have "hd (top_indices sims) \<in> set (top_indices sims)" "sims ! hd (top_indices sims) > 3/10"
    by simp_all
  then have "filter (\<lambda>i. sims ! i > 3/10) (top_indices sims) \<noteq> []"
    by (auto simp: filter_empty_conv)
  then show ?thesis
    by (simp add: best_matches_def)
qed




subsection \<open>Case of the subject\<close>

lemma analyze_response_subject_only:
  assumes "lower s1 = lower s2"
  shows "analyze_response enc (r\<lparr>subject := s1\<rparr>) = analyze_response enc (r\<lparr>subject := s2\<rparr>)"
proof -
  have a: "subject_refs (r\<lparr>subject := s1\<rparr>) = subject_refs (r\<lparr>subject := s2\<rparr>)"
    using assms by (simp add: subject_refs_def)
  then have b: "all_refs (r\<lparr>subject := s1\<rparr>) = all_refs (r\<lparr>subject := s2\<rparr>)"
    by (simp add: all_refs_def)
  show ?thesis
    unfolding analyze_response_def analyze_response_try_def a b by simp
qed

text \<open>
  With a known subject the result is never the pair of the unknown subject: a failure gives
  the score 0, and a score of 0.5 comes with its reference, which is above 0.3.
\<close>

lemma analyze_response_known_not_default:
  assumes "subject_refs r \<noteq> []"
  shows "analyze_response enc r \<noteq> (1/2, [])"
proof (cases "analyze_response_try enc r")
  case (Inl e)
  then show ?thesis by (simp add: analyze_response_def)
next
  case (Inr res)
  obtain score matches where res: "res = (score, matches)" by (cases res)
  from analyze_response_try_InrD [OF Inr [unfolded res] assms] obtain u vs where
    m: "np_max (map (cosine u) vs) = Inr score"
    and b: "matches = best_matches (all_refs r) (map (cosine u) vs)"
    by blast
  from m have ne: "map (cosine u) vs \<noteq> []" by (cases vs) simp_all
  with m have "score = Max (set (map (cosine u) vs))"
    using np_max_eq_Max [OF ne] by simp
  with ne b have "score > 3/10 \<Longrightarrow> matches \<noteq> []"
    using best_matches_nonempty [of "map (cosine u) vs" "all_refs r"] by simp
  then have "(score, matches) \<noteq> (1/2, [])" by auto
  with Inr res show ?thesis by (simp add: analyze_response_def)
qed

text \<open>
  C10. Two subjects with the same lowering, that is subjects that differ only in the case
  of their letters, give the same result of \<open>analyze_response\<close> on otherwise equal
  responses; and a subject whose lowering is a key of the corpus never gives the result
  of the unknown subject.
\<close>

theorem analyze_response_case_insensitive:
  "(lower s1 = lower s2 \<longrightarrow>
      analyze_response enc (r\<lparr>subject := s1\<rparr>) = analyze_response enc (r\<lparr>subject := s2\<rparr>)) \<and>
   (lower s1 \<in> fst ` set reference_answers \<longrightarrow>
      analyze_response enc (r\<lparr>subject := s1\<rparr>) \<noteq> (1/2, []))"
proof (intro conjI impI)
  assume "lower s1 = lower s2"
  then show "analyze_response enc (r\<lparr>subject := s1\<rparr>) = analyze_response enc (r\<lparr>subject := s2\<rparr>)"
    by (rule analyze_response_subject_only)
next
  assume "lower s1 \<in> fst ` set reference_answers"
  then have "subject_refs (r\<lparr>subject := s1\<rparr>) \<noteq> []"
    by (intro subject_refs_nonempty) simp
  then show "analyze_response enc (r\<lparr>subject := s1\<rparr>) \<noteq> (1/2, [])"
    by (rule analyze_response_known_not_default)
qed

theorem analyze_response_case_insensitive_witness:
  "lower ''Mathematics'' = lower ''mathematics'' \<and>
   lower ''Mathematics'' \<in> fst ` set reference_answers \<and>
   analyze_response enc_graded (sample_response ''s1'' ''Mathematics'') =
     analyze_response enc_graded (sample_response ''s1'' ''mathematics'') \<and>
   analyze_response enc_graded (sample_response ''s1'' ''Mathematics'') \<noteq> (1/2, [])"
proof -
  have h1: "lower ''Mathematics'' = lower ''mathematics''"
    by (simp add: lower_samples)
  have h2: "lower ''Mathematics'' \<in> fst ` set reference_answers"
    by (simp add: lower_samples reference_subjects)
  have upd: "(sample_response ''s1'' ''history'')\<lparr>subject := s\<rparr> = sample_response ''s1'' s" for s
    by (simp add: sample_response_def)
  have "(lower ''Mathematics'' = lower ''mathematics'' \<longrightarrow>
           analyze_response enc_graded (sample_response ''s1'' ''Mathematics'') =
           analyze_response enc_graded (sample_response ''s1'' ''mathematics'')) \<and>
        (lower ''Mathematics'' \<in> fst ` set reference_answers \<longrightarrow>
           analyze_response enc_graded (sample_response ''s1'' ''Mathematics'') \<noteq> (1/2, []))"
    using analyze_response_case_insensitive
      [of "''Mathematics''" "''mathematics''" enc_graded "sample_response ''s1'' ''history''"]
    unfolding upd .
  with h1 h2 show ?thesis by blast
qed

subsection \<open>Progress lookup and dashboard\<close>

text \<open>
  C8. For a student with no record in the history store, \<open>get_student_progress\<close> returns
  the dictionary with the single key \<^verbatim>\<open>"error"\<close>; it is a value, not an exception. This is
  so in the initial state, before any record is made.
\<close>

theorem get_student_progress_no_data:
  "get_student_progress init sid = ProgressError ''No feedback found for this student'' \<and>
   ((\<forall>f \<in> set (feedback_history self). student_id_f f \<noteq> sid) \<longrightarrow>
      get_student_progress self sid = ProgressError ''No feedback found for this student'')"
  by (simp add: get_student_progress_def init_def filter_empty_conv)

lemma generate_all_one:
  "\<exists>fb g. generate_all enc init [(now, r)] = Inr g \<and> feedback_history g = [fb] \<and>
          student_id_f fb = student_id r"
proof -
  from generate_feedback_total [of enc now init r] obtain fb g where
    gf: "generate_feedback enc now init r = Inr (fb, g)" by blast
  from generate_feedback_InrD [OF gf] gf show ?thesis
    by (simp add: init_def)
qed

theorem get_student_progress_no_data_witness:
  "\<exists>g. generate_all enc_low init [(1, sample_response ''s1'' ''Mathematics'')] = Inr g \<and>
       feedback_history g \<noteq> [] \<and>
       (\<forall>f \<in> set (feedback_history g). student_id_f f \<noteq> ''s2'') \<and>
       get_student_progress g ''s2'' = ProgressError ''No feedback found for this student''"
proof -
  from generate_all_one [of enc_low 1 "sample_response ''s1'' ''Mathematics''"] obtain fb g where
    g: "generate_all enc_low init [(1, sample_response ''s1'' ''Mathematics'')] = Inr g"
      "feedback_history g = [fb]" "student_id_f fb = student_id (sample_response ''s1'' ''Mathematics'')"
    by (elim exE conjE)
  from g(2,3) have no: "\<forall>f \<in> set (feedback_history g). student_id_f f \<noteq> ''s2''"
    by (simp add: sample_response_def)
  from get_student_progress_no_data [of "''s2''" g] no g(1,2) show ?thesis by auto
qed

text \<open>
  C9. \<open>get_educator_dashboard\<close> changes nothing of the generator, and the class overview
  it returns does not depend on the clock: two calls on one state of the history store
  return the same \<open>class_overview\<close>.
\<close>

theorem dashboard_class_overview_idempotent:
  "db_class_overview (get_educator_dashboard now1 self) =
   db_class_overview (get_educator_dashboard now2 self)"
  by (simp add: get_educator_dashboard_def Let_def)

theorem dashboard_class_overview_idempotent_witness:
  "\<exists>g. generate_all enc_low init [(1, sample_response ''s1'' ''Mathematics'')] = Inr g \<and>
       db_class_overview (get_educator_dashboard 2 g) = db_class_overview (get_educator_dashboard 3 g)"
proof -
  from generate_all_total [of enc_low init "[(1, sample_response ''s1'' ''Mathematics'')]"]
  obtain g where g: "generate_all enc_low init [(1, sample_response ''s1'' ''Mathematics'')] = Inr g"
    by (elim exE)
  from dashboard_class_overview_idempotent [of 2 g 3] g show ?thesis by auto
qed


end
